theory Spec2Isabelle
  imports Complex_Main
begin

section \<open>Values and readings\<close>

text \<open>
  A reading arrives as a JSON object and is handled as a Python dict. Its values are
  the Python values a JSON document decodes to. Floats are represented by the real
  numbers they denote; NaN and the infinities are left out. The dict is an association
  list in insertion order (the order \<^verbatim>\<open>data.items()\<close> iterates in); its keys are
  distinct, as in a Python dict.
\<close>

datatype pyval =
    PyNone
  | PyBool bool
  | PyInt int
  | PyFloat real
  | PyStr string
  | PyList "pyval list"
  | PyDict "(string \<times> pyval) list"

type_synonym reading = "(string \<times> pyval) list"

text \<open>\<^verbatim>\<open>field in data\<close> and \<^verbatim>\<open>data.get(field)\<close> (None when the key is absent).\<close>

definition has_key :: "reading \<Rightarrow> string \<Rightarrow> bool" where
  "has_key data field = (map_of data field \<noteq> None)"

definition dict_get :: "reading \<Rightarrow> string \<Rightarrow> pyval" where
  "dict_get data field = (case map_of data field of None \<Rightarrow> PyNone | Some v \<Rightarrow> v)"

text \<open>
  \<^verbatim>\<open>isinstance(v, (int, float))\<close>. In Python \<^verbatim>\<open>bool\<close> is a subclass of
  \<^verbatim>\<open>int\<close>, so the test holds for True and False as well.
\<close>

fun isinstance_int_float :: "pyval \<Rightarrow> bool" where
  "isinstance_int_float (PyBool b) = True"
| "isinstance_int_float (PyInt i) = True"
| "isinstance_int_float (PyFloat x) = True"
| "isinstance_int_float v = False"

text \<open>\<^verbatim>\<open>sep.join(xs)\<close>.\<close>

fun join :: "string \<Rightarrow> string list \<Rightarrow> string" where
  "join sep [] = []"
| "join sep [x] = x"
| "join sep (x # y # ys) = x @ sep @ join sep (y # ys)"

section \<open>config.py\<close>

text \<open>
  The threshold is the float written \<^verbatim>\<open>-0.2\<close>; like every float it is taken as the
  real number it is written as. The comparisons the code makes with it are comparisons of
  real numbers either way.
\<close>

definition ANOMALY_THRESHOLD :: real where
  "ANOMALY_THRESHOLD = - (2 / 10)"

definition MALWARE_WINDOW_SECONDS :: int where
  "MALWARE_WINDOW_SECONDS = 300"

definition MALWARE_THRESHOLD_COUNT :: nat where
  "MALWARE_THRESHOLD_COUNT = 3"

definition MODEL_FEATURES :: "string list" where
  "MODEL_FEATURES = [''temperature'', ''pressure'', ''rpm'']"

definition REQUIRED_FIELDS :: "string list" where
  "REQUIRED_FIELDS = [''timestamp'', ''device_id'', ''temperature'', ''pressure'', ''rpm'']"

section \<open>utils.py: validate_data\<close>

definition numeric_fields :: "string list" where
  "numeric_fields = [''temperature'', ''pressure'', ''rpm'']"

text \<open>The list comprehension of line 26.\<close>

definition missing_fields :: "reading \<Rightarrow> string list" where
  "missing_fields data = filter (\<lambda>field. \<not> has_key data field) REQUIRED_FIELDS"

text \<open>
  The loop of lines 33 to 35: it returns at the first field that fails the
  \<^verbatim>\<open>isinstance\<close> test; None when the loop runs to its end.
\<close>

fun first_non_numeric :: "reading \<Rightarrow> string list \<Rightarrow> string option" where
  "first_non_numeric data [] = None"
| "first_non_numeric data (field # fields) =
     (if \<not> isinstance_int_float (dict_get data field) then Some field
      else first_non_numeric data fields)"

definition validate_data :: "reading \<Rightarrow> bool \<times> string" where
  "validate_data data =
     (if missing_fields data \<noteq> [] then
        (False, ''Missing required fields: '' @ join '', '' (missing_fields data))
      else
        (case first_non_numeric data numeric_fields of
           Some field \<Rightarrow>
             (False, ''Field '' @ [CHR 0x27] @ field @ [CHR 0x27] @ '' must be numeric'')
         | None \<Rightarrow> (True, '''')))"

text \<open>
  \<^verbatim>\<open>validate_data\<close> has no error classes: it tells its two rejections apart by
  the message. The two predicates read the kind of a result off its message.
\<close>

definition is_missing_field_error :: "bool \<times> string \<Rightarrow> bool" where
  "is_missing_field_error r = (\<not> fst r \<and> take 25 (snd r) = ''Missing required fields: '')"

definition is_type_mismatch_error :: "bool \<times> string \<Rightarrow> bool" where
  "is_type_mismatch_error r =
     (\<not> fst r \<and> take 7 (snd r) = ''Field '' @ [CHR 0x27])"

section \<open>Time, text and the library calls\<close>

text \<open>
  A naive \<^verbatim>\<open>datetime\<close> is the number of microseconds since 0001-01-01 00:00:00;
  subtracting a \<^verbatim>\<open>timedelta\<close> and comparing two datetimes are then the
  operations of \<^typ>\<open>int\<close>, as Python's naive datetime arithmetic is.
\<close>

type_synonym datetime = int

definition timedelta :: "int \<Rightarrow> int" where
  "timedelta seconds = seconds * 1000000"

text \<open>
  The calls into the Python library whose results the code only passes on are taken
  as parameters, so every theorem holds whatever they return:
  \<^item> \<open>strptime\<close>: \<^verbatim>\<open>datetime.strptime(s, "%Y-%m-%d %H:%M:%S")\<close>, None when it raises
    ValueError;
  \<^item> \<open>strftime\<close>: \<^verbatim>\<open>t.strftime("%Y-%m-%d %H:%M:%S")\<close>;
  \<^item> \<open>format_4f\<close>: the format specification \<^verbatim>\<open>:.4f\<close> of an f-string;
  \<^item> \<open>str_other\<close>: \<^verbatim>\<open>str(v)\<close> for a float, a list or a dict.
\<close>

record pylib =
  strptime :: "string \<Rightarrow> datetime option"
  strftime :: "datetime \<Rightarrow> string"
  format_4f :: "real \<Rightarrow> string"
  str_other :: "pyval \<Rightarrow> string"

text \<open>\<^verbatim>\<open>str(i)\<close> for an int: its decimal digits, after a minus sign when negative.\<close>

definition digit_char :: "int \<Rightarrow> char" where
  "digit_char i = ''0123456789'' ! nat (i mod 10)"

function str_digits :: "int \<Rightarrow> string" where
  "str_digits i = (if i < 10 then [digit_char i] else str_digits (i div 10) @ [digit_char i])"
  by pat_completeness auto
termination
  by (relation "measure nat") auto

definition str_int :: "int \<Rightarrow> string" where
  "str_int i = (if i < 0 then ''-'' @ str_digits (- i) else str_digits i)"

text \<open>\<^verbatim>\<open>str(v)\<close>, which is what an f-string field \<^verbatim>\<open>{v}\<close> becomes.\<close>

definition py_str :: "pylib \<Rightarrow> pyval \<Rightarrow> string" where
  "py_str L v =
     (case v of
        PyStr s \<Rightarrow> s
      | PyNone \<Rightarrow> ''None''
      | PyBool b \<Rightarrow> (if b then ''True'' else ''False'')
      | PyInt i \<Rightarrow> str_int i
      | _ \<Rightarrow> str_other L v)"

text \<open>\<^verbatim>\<open>s.split(sep)\<close> for a separator of one character.\<close>

fun split_on :: "char \<Rightarrow> string \<Rightarrow> string \<Rightarrow> string list" where
  "split_on sep cur [] = [cur]"
| "split_on sep cur (c # cs) =
     (if c = sep then cur # split_on sep [] cs else split_on sep (cur @ [c]) cs)"

definition str_split :: "char \<Rightarrow> string \<Rightarrow> string list" where
  "str_split sep s = split_on sep [] s"

text \<open>\<^verbatim>\<open>sub in s\<close> on strings: \<open>sub\<close> occurs in \<open>s\<close> as a contiguous run.\<close>

fun startswith :: "string \<Rightarrow> string \<Rightarrow> bool" where
  "startswith s [] = True"
| "startswith [] (p # ps) = False"
| "startswith (c # cs) (p # ps) = (c = p \<and> startswith cs ps)"

fun str_contains :: "string \<Rightarrow> string \<Rightarrow> bool" where
  "str_contains sub [] = (sub = [])"
| "str_contains sub (c # cs) = (startswith (c # cs) sub \<or> str_contains sub cs)"

text \<open>
  \<^verbatim>\<open>f.readlines()\<close> of a file opened in text mode: the content is cut after every
  line break, and the line breaks \<^verbatim>\<open>\r\n\<close> and \<^verbatim>\<open>\r\<close> are read as \<^verbatim>\<open>\n\<close>
  (universal newlines). Each line keeps its \<^verbatim>\<open>\n\<close>.
\<close>

fun readlines_from :: "string \<Rightarrow> string \<Rightarrow> string list" where
  "readlines_from cur [] = (if cur = [] then [] else [cur])"
| "readlines_from cur [c] =
     (if c = CHR 0x0A \<or> c = CHR 0x0D then [cur @ [CHR 0x0A]] else [cur @ [c]])"
| "readlines_from cur (c # d # cs) =
     (if c = CHR 0x0A then (cur @ [CHR 0x0A]) # readlines_from [] (d # cs)
      else if c = CHR 0x0D then
        (if d = CHR 0x0A then (cur @ [CHR 0x0A]) # readlines_from [] cs
         else (cur @ [CHR 0x0A]) # readlines_from [] (d # cs))
      else readlines_from (cur @ [c]) (d # cs))"

definition readlines :: "string \<Rightarrow> string list" where
  "readlines content = readlines_from [] content"

section \<open>The process and its files\<close>

text \<open>
  A scoring model is what \<^verbatim>\<open>joblib.load\<close> returns: the code uses it only through
  \<^verbatim>\<open>model.score_samples(np.array([[...]]))[0]\<close>, which gives a score or raises; a
  raise is \<open>Inl\<close> with the text of the exception.
\<close>

type_synonym model = "pyval list \<Rightarrow> string + real"

text \<open>
  What is at \<^verbatim>\<open>MODEL_PATH\<close>: no file, a file on which \<^verbatim>\<open>joblib.load\<close> raises,
  or a pickled model. What is at \<^verbatim>\<open>ALERTS_LOG_PATH\<close>: no file, a file on which
  \<^verbatim>\<open>open\<close> raises, or a text.
\<close>

datatype model_file = NoModelFile | LoadRaises string | Pickled model

datatype text_file = Absent | OpenRaises string | Content string

datatype log_level = INFO | WARNING | ERROR

text \<open>
  The state the functions work on: the global \<^verbatim>\<open>isolation_forest_model\<close> of
  ml\_model.py, the two files, the value of \<^verbatim>\<open>config.MODEL_PATH\<close> (it depends on
  where the package is installed) and the records written with \<^verbatim>\<open>logging\<close>.
\<close>

record system =
  isolation_forest_model :: "model option"
  model_pkl :: model_file
  alerts_log :: text_file
  MODEL_PATH :: string
  logging :: "(log_level \<times> string) list"

definition log :: "log_level \<Rightarrow> string \<Rightarrow> system \<Rightarrow> system" where
  "log level msg s = s\<lparr>logging := logging s @ [(level, msg)]\<rparr>"

section \<open>ml\_model.py\<close>

text \<open>
  \<^verbatim>\<open>load_model\<close>: both the missing file and a raising \<^verbatim>\<open>joblib.load\<close> end in
  \<^verbatim>\<open>isolation_forest_model = None\<close>; the exception is caught and logged.
\<close>

definition load_model :: "system \<Rightarrow> system" where
  "load_model s =
     (case model_pkl s of
        Pickled m \<Rightarrow>
          log INFO ''Model loaded successfully''
            ((log INFO (''Loading model from '' @ MODEL_PATH s) s)
               \<lparr>isolation_forest_model := Some m\<rparr>)
      | NoModelFile \<Rightarrow>
          (log WARNING ''Model file not found. You need to train the model first.'' s)
            \<lparr>isolation_forest_model := None\<rparr>
      | LoadRaises e \<Rightarrow>
          (log ERROR (''Error loading model: '' @ e)
             (log INFO (''Loading model from '' @ MODEL_PATH s) s))
            \<lparr>isolation_forest_model := None\<rparr>)"

definition get_model :: "system \<Rightarrow> model option \<times> system" where
  "get_model s =
     (let s' = (if isolation_forest_model s = None then load_model s else s)
      in (isolation_forest_model s', s'))"

text \<open>
  \<^verbatim>\<open>[data_point[feature] for feature in MODEL_FEATURES]\<close>: the first absent key raises
  KeyError, whose text is the key in quotes.
\<close>

fun lookup_features :: "reading \<Rightarrow> string list \<Rightarrow> string + pyval list" where
  "lookup_features data_point [] = Inr []"
| "lookup_features data_point (feature # features) =
     (case map_of data_point feature of
        None \<Rightarrow> Inl ([CHR 0x27] @ feature @ [CHR 0x27])
      | Some v \<Rightarrow>
          (case lookup_features data_point features of
             Inl e \<Rightarrow> Inl e
           | Inr vs \<Rightarrow> Inr (v # vs)))"

text \<open>The \<^verbatim>\<open>except\<close> branch of \<^verbatim>\<open>predict_anomaly\<close>, lines 68 to 70.\<close>

definition prediction_failed :: "string \<Rightarrow> system \<Rightarrow> (bool \<times> real \<times> string) \<times> system" where
  "prediction_failed e s =
     ((False, 0, ''Error during prediction: '' @ e),
      log ERROR (''Error during anomaly prediction: '' @ e) s)"

definition predict_anomaly ::
  "pylib \<Rightarrow> reading \<Rightarrow> system \<Rightarrow> (bool \<times> real \<times> string) \<times> system" where
  "predict_anomaly L data_point s =
     (case get_model s of
        (None, s1) \<Rightarrow>
          ((False, 0, ''Model not loaded, unable to perform anomaly detection''), s1)
      | (Some m, s1) \<Rightarrow>
          (case lookup_features data_point MODEL_FEATURES of
             Inl e \<Rightarrow> prediction_failed e s1
           | Inr features \<Rightarrow>
               (case m features of
                  Inl e \<Rightarrow> prediction_failed e s1
                | Inr anomaly_score \<Rightarrow>
                    (let is_anomaly = (anomaly_score < ANOMALY_THRESHOLD);
                         message =
                           (if is_anomaly
                            then ''Anomaly detected with score '' @ format_4f L anomaly_score
                            else ''Normal data point with score '' @ format_4f L anomaly_score)
                     in ((is_anomaly, anomaly_score, message), s1)))))"

section \<open>utils.py: log\_anomaly and check\_for\_malware\<close>

text \<open>
  \<^verbatim>\<open>log_anomaly\<close> appends one line to the alerts log, stamped with
  \<^verbatim>\<open>datetime.now()\<close> (the argument \<open>now\<close>), not with the reading's timestamp.
  Opening a missing file for appending creates it.
\<close>

definition anomaly_log_message :: "pylib \<Rightarrow> datetime \<Rightarrow> reading \<Rightarrow> real \<Rightarrow> string" where
  "anomaly_log_message L now data anomaly_score =
     (let timestamp = strftime L now;
          device_id = (case map_of data ''device_id'' of None \<Rightarrow> PyStr ''unknown'' | Some v \<Rightarrow> v)
      in ''['' @ timestamp @ ''] ANOMALY DETECTED: Device '' @ py_str L device_id @ '', '' @
         ''Score: '' @ format_4f L anomaly_score @ '', '' @
         ''Data: '' @
           join '', ''
             (map (\<lambda>(k, v). k @ ''='' @ py_str L v)
                (filter (\<lambda>(k, v). k \<in> set [''temperature'', ''pressure'', ''rpm'']) data)))"

definition log_anomaly :: "pylib \<Rightarrow> datetime \<Rightarrow> reading \<Rightarrow> real \<Rightarrow> system \<Rightarrow> bool \<times> system" where
  "log_anomaly L now data anomaly_score s =
     (let log_message = anomaly_log_message L now data anomaly_score
      in case alerts_log s of
           OpenRaises e \<Rightarrow> (False, log ERROR (''Error logging anomaly: '' @ e) s)
         | Absent \<Rightarrow> (True, s\<lparr>alerts_log := Content (log_message @ [CHR 0x0A])\<rparr>)
         | Content c \<Rightarrow> (True, s\<lparr>alerts_log := Content (c @ log_message @ [CHR 0x0A])\<rparr>))"

text \<open>
  Lines 155 and 156: \<^verbatim>\<open>line.split('[')[1].split(']')[0]\<close>, then \<^verbatim>\<open>strptime\<close>.
  None stands for the IndexError or ValueError that sends the loop to \<^verbatim>\<open>continue\<close>.
\<close>

definition log_time :: "pylib \<Rightarrow> string \<Rightarrow> datetime option" where
  "log_time L line =
     (case str_split (CHR ''['') line of
        a # b # rest \<Rightarrow>
          (case str_split (CHR '']'') b of
             timestamp_str # rest' \<Rightarrow> strptime L timestamp_str
           | [] \<Rightarrow> None)
      | _ \<Rightarrow> None)"

text \<open>The loop of lines 152 to 165, with the running \<^verbatim>\<open>anomaly_count\<close>.\<close>

fun count_anomalies :: "pylib \<Rightarrow> datetime \<Rightarrow> string \<Rightarrow> string list \<Rightarrow> nat \<Rightarrow> nat" where
  "count_anomalies L window_start device_id [] anomaly_count = anomaly_count"
| "count_anomalies L window_start device_id (line # alert_lines) anomaly_count =
     (case log_time L line of
        None \<Rightarrow> count_anomalies L window_start device_id alert_lines anomaly_count
      | Some t \<Rightarrow>
          (if t \<ge> window_start then
             (if str_contains (''Device '' @ device_id) line
              then count_anomalies L window_start device_id alert_lines (anomaly_count + 1)
              else count_anomalies L window_start device_id alert_lines anomaly_count)
           else count_anomalies L window_start device_id alert_lines anomaly_count))"

text \<open>
  \<^verbatim>\<open>check_for_malware\<close>; \<open>now\<close> is what \<^verbatim>\<open>datetime.now()\<close> returns at line 146.
  The function only reads the alerts log.
\<close>

definition check_for_malware ::
  "pylib \<Rightarrow> datetime \<Rightarrow> string \<Rightarrow> system \<Rightarrow> (bool \<times> nat) \<times> system" where
  "check_for_malware L now device_id s =
     (case alerts_log s of
        Absent \<Rightarrow> ((False, 0), s)
      | OpenRaises e \<Rightarrow> ((False, 0), log ERROR (''Error checking for malware: '' @ e) s)
      | Content c \<Rightarrow>
          (let alert_lines = readlines c;
               current_time = now;
               window_start = current_time - timedelta MALWARE_WINDOW_SECONDS;
               anomaly_count = count_anomalies L window_start device_id alert_lines 0;
               is_potential_malware = (anomaly_count \<ge> MALWARE_THRESHOLD_COUNT)
           in ((is_potential_malware, anomaly_count), s)))"

section \<open>routes.py: detect\_anomaly\<close>

text \<open>
  The endpoint \<^verbatim>\<open>/detect\<close> on a request whose body is a JSON object. Its calls into
  the database layer and into \<^verbatim>\<open>datetime\<close> (timestamp parsing,
  \<^verbatim>\<open>Device.get_or_create\<close>, \<^verbatim>\<open>SensorData.from_dict\<close>, \<^verbatim>\<open>Anomaly.from_dict\<close>,
  \<^verbatim>\<open>db.session.commit\<close>) are not modelled: what they do on a request is given
  by a record. Each of them either returns (None) or raises (the text of the exception),
  and a raise ends the request in the handler of line 189.
  \<^item> \<open>before_scoring\<close>: lines 123 to 135;
  \<^item> \<open>timestamp_isoformat\<close>: \<^verbatim>\<open>timestamp.isoformat()\<close> of the parsed timestamp;
  \<^item> \<open>store_anomaly\<close>: lines 153 to 159;
  \<^item> \<open>commit\<close>: line 166.
\<close>

record collaborators =
  before_scoring :: "string option"
  timestamp_isoformat :: string
  store_anomaly :: "string option"
  commit :: "string option"

text \<open>What the request's session commits at line 166.\<close>

datatype db_change = SensorDataAdded | AnomalyAdded real bool | DeviceCompromised

datatype http_response = Response (status_code: nat) (body: "(string \<times> pyval) list")

text \<open>The local variables of lines 138 to 150.\<close>

record detection =
  is_anomaly :: bool
  anomaly_score :: real
  message :: string
  is_potential_malware :: bool
  anomaly_count :: nat

definition error_response :: "nat \<Rightarrow> string \<Rightarrow> http_response" where
  "error_response code msg = Response code [(''status'', PyStr ''error''), (''message'', PyStr msg)]"

text \<open>The loop of lines 102 to 108: the first required field that is absent.\<close>

fun first_missing :: "reading \<Rightarrow> string list \<Rightarrow> string option" where
  "first_missing data [] = None"
| "first_missing data (field # rest) =
     (if \<not> has_key data field then Some field else first_missing data rest)"

text \<open>
  Lines 137 to 150: score the reading, and only if it is an anomaly check the device for
  malware. \<open>now\<close> is the wall clock that \<^verbatim>\<open>check_for_malware\<close> reads.
\<close>

definition score_and_correlate ::
  "pylib \<Rightarrow> datetime \<Rightarrow> reading \<Rightarrow> system \<Rightarrow> detection \<times> system" where
  "score_and_correlate L now data s =
     (case predict_anomaly L data s of
        ((is_anomaly', anomaly_score', message'), s1) \<Rightarrow>
          (if is_anomaly' then
             (case check_for_malware L now (py_str L (dict_get data ''device_id'')) s1 of
                ((is_potential_malware', anomaly_count'), s2) \<Rightarrow>
                  (\<lparr>is_anomaly = is_anomaly', anomaly_score = anomaly_score',
                    message = message', is_potential_malware = is_potential_malware',
                    anomaly_count = anomaly_count'\<rparr>, s2))
           else
             (\<lparr>is_anomaly = is_anomaly', anomaly_score = anomaly_score',
               message = message', is_potential_malware = False, anomaly_count = 0\<rparr>, s1)))"

text \<open>Lines 168 to 187: the JSON of a successful answer.\<close>

definition detection_result :: "collaborators \<Rightarrow> reading \<Rightarrow> detection \<Rightarrow> (string \<times> pyval) list" where
  "detection_result C data d =
     [(''status'', PyStr ''success''),
      (''device_id'', dict_get data ''device_id''),
      (''timestamp'', PyStr (timestamp_isoformat C)),
      (''is_anomaly'', PyBool (is_anomaly d)),
      (''anomaly_score'', PyFloat (anomaly_score d)),
      (''threshold'', PyFloat ANOMALY_THRESHOLD),
      (''message'', PyStr (message d))]
     @ (if is_anomaly d then
          [(''is_potential_malware'', PyBool (is_potential_malware d)),
           (''anomaly_count'', PyInt (int (anomaly_count d)))]
          @ (if is_potential_malware d then
               [(''warning'', PyStr
                  ''CRITICAL: Multiple anomalies detected in short timeframe. Possible malware activity!'')]
             else [])
        else [])"

definition session_changes :: "detection \<Rightarrow> db_change list" where
  "session_changes d =
     SensorDataAdded #
       (if is_anomaly d then
          AnomalyAdded (anomaly_score d) (is_potential_malware d) #
            (if is_potential_malware d then [DeviceCompromised] else [])
        else [])"

text \<open>The handler of lines 189 to 194.\<close>

definition detection_failed :: "string \<Rightarrow> system \<Rightarrow> (http_response \<times> db_change list) \<times> system" where
  "detection_failed e s =
     ((error_response 500 (''Error during anomaly detection: '' @ e), []),
      log ERROR (''Error processing anomaly detection: '' @ e) s)"

definition detect_anomaly ::
  "pylib \<Rightarrow> collaborators \<Rightarrow> datetime \<Rightarrow> reading \<Rightarrow> system
     \<Rightarrow> (http_response \<times> db_change list) \<times> system" where
  "detect_anomaly L C now data s =
     (case first_missing data [''device_id'', ''timestamp'', ''temperature'', ''pressure'', ''rpm''] of
        Some field \<Rightarrow> ((error_response 400 (''Missing required field: '' @ field), []), s)
      | None \<Rightarrow>
          (case get_model s of
             (None, s1) \<Rightarrow>
               ((error_response 400 ''No trained model available for anomaly detection'', []), s1)
           | (Some m, s1) \<Rightarrow>
               (case before_scoring C of
                  Some e \<Rightarrow> detection_failed e s1
                | None \<Rightarrow>
                    (case score_and_correlate L now data s1 of
                       (d, s2) \<Rightarrow>
                         (case (if is_anomaly d then store_anomaly C else None) of
                            Some e \<Rightarrow> detection_failed e s2
                          | None \<Rightarrow>
                              (case commit C of
                                 Some e \<Rightarrow> detection_failed e s2
                               | None \<Rightarrow>
                                   ((Response 200 (detection_result C data d),
                                     session_changes d), s2)))))))"

section \<open>The tracker as the specification words it\<close>

text \<open>
  Section 4.3 of the specification, for comparison with \<^verbatim>\<open>check_for_malware\<close>:
  append the anomaly's timestamp to the device's window, drop every entry with
  \<open>timestamp < anomaly_timestamp - window_seconds\<close>, return the length.
\<close>

definition spec_record_and_count :: "datetime list \<Rightarrow> datetime \<Rightarrow> nat" where
  "spec_record_and_count window anomaly_timestamp =
     length (filter (\<lambda>t. \<not> t < anomaly_timestamp - timedelta MALWARE_WINDOW_SECONDS)
       (window @ [anomaly_timestamp]))"

section \<open>The library calls on the text the code writes\<close>

text \<open>
  For running the functions on concrete inputs the library calls need values. The
  definitions below follow CPython on the inputs the examples use: the proleptic Gregorian
  calendar of \<^verbatim>\<open>datetime\<close> (\<^verbatim>\<open>_ymd2ord\<close>, \<^verbatim>\<open>_ord2ymd\<close>), \<^verbatim>\<open>strftime\<close> with
  zero-padded fields, \<^verbatim>\<open>strptime\<close> on text of exactly that zero-padded form (CPython
  accepts some unpadded text as well, which \<^verbatim>\<open>log_anomaly\<close> never writes), and
  \<^verbatim>\<open>:.4f\<close> rounding to four decimals, ties to even.
\<close>

definition is_leap :: "int \<Rightarrow> bool" where
  "is_leap y = (y mod 4 = 0 \<and> (y mod 100 \<noteq> 0 \<or> y mod 400 = 0))"

definition days_before_year :: "int \<Rightarrow> int" where
  "days_before_year y = (y - 1) * 365 + (y - 1) div 4 - (y - 1) div 100 + (y - 1) div 400"

definition days_in_month :: "int \<Rightarrow> int \<Rightarrow> int" where
  "days_in_month y m =
     (if m = 2 \<and> is_leap y then 29
      else [31, 28, 31, 30, 31, 30, 31, 31, 30, 31, 30, 31] ! nat (m - 1))"

definition days_before_month :: "int \<Rightarrow> int \<Rightarrow> int" where
  "days_before_month y m =
     [0, 31, 59, 90, 120, 151, 181, 212, 243, 273, 304, 334] ! nat (m - 1)
       + (if m > 2 \<and> is_leap y then 1 else 0)"

definition ymd2ord :: "int \<Rightarrow> int \<Rightarrow> int \<Rightarrow> int" where
  "ymd2ord y m d = days_before_year y + days_before_month y m + d"

definition ord2ymd :: "int \<Rightarrow> int \<times> int \<times> int" where
  "ord2ymd ordinal =
     (let n = ordinal - 1;
          n400 = n div 146097; r400 = n mod 146097;
          n100 = r400 div 36524; r100 = r400 mod 36524;
          n4 = r100 div 1461; r4 = r100 mod 1461;
          n1 = r4 div 365; r1 = r4 mod 365;
          year = n400 * 400 + 1 + n100 * 100 + n4 * 4 + n1
      in if n1 = 4 \<or> n100 = 4 then (year - 1, 12, 31)
         else
           (let month = (r1 + 50) div 32;
                preceding = days_before_month year month
            in if preceding > r1
               then (year, month - 1, r1 - (preceding - days_in_month year (month - 1)) + 1)
               else (year, month, r1 - preceding + 1)))"

definition datetime_of :: "int \<Rightarrow> int \<Rightarrow> int \<Rightarrow> int \<Rightarrow> int \<Rightarrow> int \<Rightarrow> int \<Rightarrow> datetime" where
  "datetime_of y m d hh mm ss us =
     ((((ymd2ord y m d - 1) * 24 + hh) * 60 + mm) * 60 + ss) * 1000000 + us"

definition digit_value :: "char \<Rightarrow> int option" where
  "digit_value c =
     map_of [(CHR ''0'', 0), (CHR ''1'', 1), (CHR ''2'', 2), (CHR ''3'', 3), (CHR ''4'', 4),
             (CHR ''5'', 5), (CHR ''6'', 6), (CHR ''7'', 7), (CHR ''8'', 8), (CHR ''9'', 9)] c"

fun digits_value :: "int \<Rightarrow> string \<Rightarrow> int option" where
  "digits_value acc [] = Some acc"
| "digits_value acc (c # cs) =
     (case digit_value c of None \<Rightarrow> None | Some d \<Rightarrow> digits_value (10 * acc + d) cs)"

definition strptime_padded :: "string \<Rightarrow> datetime option" where
  "strptime_padded s =
     (if length s = 19 \<and> s ! 4 = CHR ''-'' \<and> s ! 7 = CHR ''-'' \<and> s ! 10 = CHR '' ''
         \<and> s ! 13 = CHR '':'' \<and> s ! 16 = CHR '':''
      then
        (case (digits_value 0 (take 4 s), digits_value 0 (take 2 (drop 5 s)),
               digits_value 0 (take 2 (drop 8 s)), digits_value 0 (take 2 (drop 11 s)),
               digits_value 0 (take 2 (drop 14 s)), digits_value 0 (take 2 (drop 17 s))) of
           (Some y, Some m, Some d, Some hh, Some mm, Some ss) \<Rightarrow>
             (if 1 \<le> y \<and> 1 \<le> m \<and> m \<le> 12 \<and> 1 \<le> d \<and> d \<le> days_in_month y m
                 \<and> hh \<le> 23 \<and> mm \<le> 59 \<and> ss \<le> 59
              then Some (datetime_of y m d hh mm ss 0) else None)
         | _ \<Rightarrow> None)
      else None)"

definition pad :: "nat \<Rightarrow> int \<Rightarrow> string" where
  "pad width i = replicate (width - length (str_int i)) (CHR ''0'') @ str_int i"

definition strftime_padded :: "datetime \<Rightarrow> string" where
  "strftime_padded t =
     (let secs = t div 1000000;
          days = secs div 86400; r = secs mod 86400
      in case ord2ymd (days + 1) of
           (y, m, d) \<Rightarrow>
             pad 4 y @ ''-'' @ pad 2 m @ ''-'' @ pad 2 d @ '' '' @
             pad 2 (r div 3600) @ '':'' @ pad 2 (r mod 3600 div 60) @ '':'' @ pad 2 (r mod 60))"

definition round_half_even :: "real \<Rightarrow> int" where
  "round_half_even x =
     (let f = \<lfloor>x\<rfloor>; d = x - of_int f
      in if d < 1 / 2 then f
         else if d > 1 / 2 then f + 1
         else if even f then f else f + 1)"

definition format_scaled :: "bool \<Rightarrow> int \<Rightarrow> string" where
  "format_scaled negative n =
     (if negative then ''-'' else []) @ str_int (n div 10000) @ ''.'' @ pad 4 (n mod 10000)"

definition format_4f_real :: "real \<Rightarrow> string" where
  "format_4f_real x = format_scaled (x < 0) \<bar>round_half_even (x * 10000)\<bar>"

definition cpython :: pylib where
  "cpython = \<lparr>strptime = strptime_padded, strftime = strftime_padded,
              format_4f = format_4f_real, str_other = (\<lambda>v. ''?'')\<rparr>"

section \<open>What the malware check reads, and inputs for the examples\<close>

text \<open>The lines \<^verbatim>\<open>check_for_malware\<close> iterates over; none when it cannot read the log.\<close>

definition alert_lines :: "system \<Rightarrow> string list" where
  "alert_lines s = (case alerts_log s of Content c \<Rightarrow> readlines c | _ \<Rightarrow> [])"

text \<open>
  A reading of a device, a process that has just started with no model file and no
  alerts log, the same process with a pickled model at \<^verbatim>\<open>MODEL_PATH\<close>, a model that
  gives every feature vector the same score, and collaborators that raise nothing.
\<close>

definition reading_of :: "string \<Rightarrow> reading" where
  "reading_of device =
     [(''timestamp'', PyStr ''2024-01-01T12:00:00''), (''device_id'', PyStr device),
      (''temperature'', PyInt 70), (''pressure'', PyInt 100), (''rpm'', PyInt 3000)]"

definition fresh :: system where
  "fresh = \<lparr>isolation_forest_model = None, model_pkl = NoModelFile, alerts_log = Absent,
            MODEL_PATH = ''/srv/aegis/model/model.pkl'', logging = []\<rparr>"

definition constant_model :: "real \<Rightarrow> model" where
  "constant_model x = (\<lambda>features. Inr x)"

definition serving :: "model \<Rightarrow> system" where
  "serving m = fresh\<lparr>model_pkl := Pickled m\<rparr>"

definition db_ok :: collaborators where
  "db_ok = \<lparr>before_scoring = None, timestamp_isoformat = ''2024-01-01T12:00:00'',
            store_anomaly = None, commit = None\<rparr>"

text \<open>The process after \<^verbatim>\<open>log_anomaly\<close> has run for a reading of the device at a given time.\<close>

definition logged :: "datetime \<Rightarrow> string \<Rightarrow> system \<Rightarrow> system" where
  "logged now device s = snd (log_anomaly cpython now (reading_of device) (- (1 / 2)) s)"

section \<open>Validation of a reading\<close>

lemma first_non_numeric_None:
  "first_non_numeric data fs = None \<longleftrightarrow>
     list_all (\<lambda>f. isinstance_int_float (dict_get data f)) fs"
  by (induction fs) auto

lemma first_non_numeric_Some:
  "first_non_numeric data fs = Some f \<Longrightarrow>
     f \<in> set fs \<and> \<not> isinstance_int_float (dict_get data f)"
  by (induction fs) (auto split: if_splits)

lemma missing_fields_empty:
  "missing_fields data = [] \<longleftrightarrow> list_all (has_key data) REQUIRED_FIELDS"
  by (simp add: missing_fields_def filter_empty_conv list_all_iff)

text \<open>
  C8, as the code has it. \<^verbatim>\<open>validate_data\<close> is a function of the reading alone (it
  takes and returns no state). It rejects with the missing-fields message exactly when
  one of the five fields of \<^verbatim>\<open>REQUIRED_FIELDS\<close> (timestamp, device\_id, temperature,
  pressure, rpm) is absent; it rejects with the must-be-numeric message exactly when
  all five are present and one of temperature, pressure, rpm is not an int, a float or
  a bool; it accepts exactly when all five are present and the three are numeric.
\<close>

theorem validate_data_errors:
  "(is_missing_field_error (validate_data data) \<longleftrightarrow>
      (\<exists>field \<in> set REQUIRED_FIELDS. \<not> has_key data field)) \<and>
   (is_type_mismatch_error (validate_data data) \<longleftrightarrow>
      (\<forall>field \<in> set REQUIRED_FIELDS. has_key data field) \<and>
      (\<exists>field \<in> set numeric_fields. \<not> isinstance_int_float (dict_get data field))) \<and>
   (validate_data data = (True, '''') \<longleftrightarrow>
      (\<forall>field \<in> set REQUIRED_FIELDS. has_key data field) \<and>
      (\<forall>field \<in> set numeric_fields. isinstance_int_float (dict_get data field)))"
proof (cases "missing_fields data = []")
  case True
  then have present: "\<forall>field \<in> set REQUIRED_FIELDS. has_key data field"
    by (simp add: missing_fields_empty list_all_iff)
  show ?thesis
  proof (cases "first_non_numeric data numeric_fields")
    case None
    then have "\<forall>field \<in> set numeric_fields. isinstance_int_float (dict_get data field)"
      by (simp add: first_non_numeric_None list_all_iff)
    with True None present show ?thesis
      by (simp add: validate_data_def is_missing_field_error_def is_type_mismatch_error_def)
  next
    case (Some f)
    from first_non_numeric_Some [OF Some]
    have "\<exists>field \<in> set numeric_fields. \<not> isinstance_int_float (dict_get data field)"
      by blast
    with True Some present show ?thesis
      by (simp add: validate_data_def is_missing_field_error_def is_type_mismatch_error_def)
  qed
next
  case False
  then have "\<exists>field \<in> set REQUIRED_FIELDS. \<not> has_key data field"
    by (simp add: missing_fields_empty list_all_iff)
  with False show ?thesis
    by (auto simp add: validate_data_def is_missing_field_error_def is_type_mismatch_error_def)
qed

text \<open>
  C8 at a reading whose temperature is a string: all five fields are present, so the
  rejection is the must-be-numeric one and not the missing-fields one.
\<close>

theorem validate_data_errors_witness:
  "is_type_mismatch_error
     (validate_data [(''timestamp'', PyInt 1704110400), (''device_id'', PyStr ''D1''),
        (''temperature'', PyStr ''hot''), (''pressure'', PyInt 100), (''rpm'', PyInt 3000)])
   \<and> \<not> is_missing_field_error
     (validate_data [(''timestamp'', PyInt 1704110400), (''device_id'', PyStr ''D1''),
        (''temperature'', PyStr ''hot''), (''pressure'', PyInt 100), (''rpm'', PyInt 3000)])"
  using validate_data_errors [of "[(''timestamp'', PyInt 1704110400), (''device_id'', PyStr ''D1''),
        (''temperature'', PyStr ''hot''), (''pressure'', PyInt 100), (''rpm'', PyInt 3000)]"]
  by (simp add: REQUIRED_FIELDS_def numeric_fields_def has_key_def dict_get_def)

text \<open>
  C8 as stated fails: a reading with temperature, pressure and rpm but no timestamp is
  rejected with the missing-fields message, although none of the three is absent.
\<close>

theorem validate_data_three_fields_counterexample:
  "is_missing_field_error
     (validate_data [(''device_id'', PyStr ''D1''), (''temperature'', PyInt 70),
        (''pressure'', PyInt 100), (''rpm'', PyInt 3000)])
   \<and> \<not> (\<exists>field \<in> set [''temperature'', ''pressure'', ''rpm''].
          \<not> has_key [(''device_id'', PyStr ''D1''), (''temperature'', PyInt 70),
                     (''pressure'', PyInt 100), (''rpm'', PyInt 3000)] field)"
  by (simp add: validate_data_def missing_fields_def REQUIRED_FIELDS_def has_key_def
      is_missing_field_error_def)

text \<open>
  C10. A reading with all required fields in which one of temperature, pressure, rpm
  holds True or False, the others holding numbers (or booleans), is reported valid.
\<close>

theorem validate_data_accepts_bool:
  assumes "\<forall>field \<in> set REQUIRED_FIELDS. has_key data field"
    and "field \<in> set numeric_fields"
    and "dict_get data field = PyBool b"
    and "\<forall>other \<in> set numeric_fields.
           other \<noteq> field \<longrightarrow> isinstance_int_float (dict_get data other)"
  shows "validate_data data = (True, '''')"
proof -
  have "isinstance_int_float (dict_get data g)" if "g \<in> set numeric_fields" for g
    using assms(3,4) that by (cases "g = field") auto
  then have "first_non_numeric data numeric_fields = None"
    by (simp add: first_non_numeric_None list_all_iff)
  moreover have "missing_fields data = []"
    using assms(1) by (simp add: missing_fields_empty list_all_iff)
  ultimately show ?thesis
    by (simp add: validate_data_def)
qed

text \<open>C10 at a reading whose temperature is True and whose rpm is False.\<close>

theorem validate_data_accepts_bool_witness:
  "validate_data [(''timestamp'', PyInt 1704110400), (''device_id'', PyStr ''D1''),
        (''temperature'', PyBool True), (''pressure'', PyInt 100), (''rpm'', PyBool False)]
     = (True, '''')"
  by (rule validate_data_accepts_bool [where field = "''temperature''" and b = True])
     (simp_all add: REQUIRED_FIELDS_def numeric_fields_def has_key_def dict_get_def)

section \<open>Loading the model and scoring\<close>

lemma log_fields [simp]:
  "isolation_forest_model (log lv msg s) = isolation_forest_model s"
  "model_pkl (log lv msg s) = model_pkl s"
  "alerts_log (log lv msg s) = alerts_log s"
  "MODEL_PATH (log lv msg s) = MODEL_PATH s"
  "logging (log lv msg s) = logging s @ [(lv, msg)]"
  by (simp_all add: log_def)

lemma load_model_files [simp]:
  "model_pkl (load_model s) = model_pkl s"
  "alerts_log (load_model s) = alerts_log s"
  by (simp_all add: load_model_def split: model_file.splits)

lemma load_model_result:
  "isolation_forest_model (load_model s) =
     (case model_pkl s of Pickled m \<Rightarrow> Some m | _ \<Rightarrow> None)"
  by (simp add: load_model_def split: model_file.splits)

lemma get_model_files [simp]:
  "model_pkl (snd (get_model s)) = model_pkl s"
  "alerts_log (snd (get_model s)) = alerts_log s"
  "isolation_forest_model (snd (get_model s)) = fst (get_model s)"
  by (simp_all add: get_model_def Let_def)

lemma predict_anomaly_alerts_log [simp]:
  "alerts_log (snd (predict_anomaly L data_point s)) = alerts_log s"
proof -
  obtain mo s1 where g: "get_model s = (mo, s1)" by (cases "get_model s")
  then have "alerts_log s1 = alerts_log s"
    using get_model_files(2) [of s] by simp
  with g show ?thesis
    by (simp add: predict_anomaly_def prediction_failed_def Let_def
        split: option.splits sum.splits)
qed

text \<open>
  Whatever branch \<^verbatim>\<open>predict_anomaly\<close> takes, the verdict it returns is the strict
  comparison of the score it returns with the threshold: its fallback score 0.0 is not
  below the negative threshold.
\<close>

lemma predict_anomaly_verdict:
  "fst (fst (predict_anomaly L data_point s)) =
     (fst (snd (fst (predict_anomaly L data_point s))) < ANOMALY_THRESHOLD)"
  by (cases "get_model s")
     (simp add: predict_anomaly_def prediction_failed_def Let_def ANOMALY_THRESHOLD_def
       split: option.splits sum.splits)

text \<open>
  C4. When a model is loaded (or loads from \<^verbatim>\<open>MODEL_PATH\<close>), the reading has the three
  features and the model scores them, the verdict is the strict comparison
  \<open>score < ANOMALY_THRESHOLD\<close> of that score; a score equal to the threshold is not
  an anomaly.
\<close>

theorem predict_anomaly_strict:
  assumes "fst (get_model s) = Some m"
    and "lookup_features data_point MODEL_FEATURES = Inr features"
    and "m features = Inr score"
  shows "fst (fst (predict_anomaly L data_point s)) = (score < ANOMALY_THRESHOLD)
       \<and> fst (snd (fst (predict_anomaly L data_point s))) = score
       \<and> (score = ANOMALY_THRESHOLD \<longrightarrow> \<not> fst (fst (predict_anomaly L data_point s)))"
  using assms
  by (cases "get_model s") (simp add: predict_anomaly_def Let_def)

text \<open>C4 at a model whose score is exactly the threshold: the verdict is false.\<close>

theorem predict_anomaly_strict_witness:
  "\<not> fst (fst (predict_anomaly cpython (reading_of ''D1'')
            (serving (constant_model ANOMALY_THRESHOLD))))
   \<and> fst (snd (fst (predict_anomaly cpython (reading_of ''D1'')
            (serving (constant_model ANOMALY_THRESHOLD))))) = ANOMALY_THRESHOLD"
  using predict_anomaly_strict [of "serving (constant_model ANOMALY_THRESHOLD)"
      "constant_model ANOMALY_THRESHOLD" "reading_of ''D1''"
      "[PyInt 70, PyInt 100, PyInt 3000]" ANOMALY_THRESHOLD cpython]
  by (simp add: get_model_def serving_def fresh_def load_model_def reading_of_def
      MODEL_FEATURES_def constant_model_def)

text \<open>
  C5 as stated fails for \<^verbatim>\<open>predict_anomaly\<close>: with no model loaded and no model file
  it returns the verdict \<open>is_anomaly = False\<close> with score 0.0, the same verdict and
  score as for a reading that a loaded model scores 0.0.
\<close>

theorem predict_without_model_counterexample:
  "fst (fst (predict_anomaly cpython (reading_of ''D1'') fresh)) = False
   \<and> fst (snd (fst (predict_anomaly cpython (reading_of ''D1'') fresh))) = 0
   \<and> fst (fst (predict_anomaly cpython (reading_of ''D1'') (serving (constant_model 0)))) = False
   \<and> fst (snd (fst (predict_anomaly cpython (reading_of ''D1'') (serving (constant_model 0))))) = 0"
  by (simp add: predict_anomaly_def get_model_def serving_def fresh_def load_model_def
      reading_of_def MODEL_FEATURES_def constant_model_def ANOMALY_THRESHOLD_def)

text \<open>
  The reason text of the no-model branch is returned by that branch alone: the other
  branches of \<^verbatim>\<open>predict_anomaly\<close> return "Error during prediction: ...", "Anomaly
  detected with score ..." or "Normal data point with score ...".
\<close>

lemma predict_anomaly_message_no_model:
  "snd (snd (fst (predict_anomaly L data_point s)))
     = ''Model not loaded, unable to perform anomaly detection''
   \<longleftrightarrow> fst (get_model s) = None"
proof (cases "get_model s")
  case (Pair mo s1)
  show ?thesis
  proof (cases mo)
    case None
    with Pair show ?thesis
      by (simp add: predict_anomaly_def)
  next
    case (Some m)
    with Pair show ?thesis
      by (simp add: predict_anomaly_def prediction_failed_def Let_def
          split: sum.splits)
  qed
qed

text \<open>
  C5, as the code has it. With no model loaded and none to load, \<^verbatim>\<open>predict_anomaly\<close>
  returns \<open>is_anomaly = False\<close>, score 0.0 and the reason "Model not loaded, unable
  to perform anomaly detection". In every process, for every reading, \<^verbatim>\<open>predict_anomaly\<close>
  returns that reason exactly when no model is available, so no verdict of a loaded model,
  normal or anomalous, carries it. The endpoint \<^verbatim>\<open>/detect\<close> tests for the model before
  scoring and answers a complete request with status 400 and a reason, without a verdict
  and without committing anything.
\<close>

theorem model_unavailable:
  assumes "isolation_forest_model s = None"
    and "model_pkl s = NoModelFile \<or> model_pkl s = LoadRaises e"
  shows "fst (predict_anomaly L data_point s) =
           (False, 0, ''Model not loaded, unable to perform anomaly detection'')
       \<and> (snd (snd (fst (predict_anomaly L' data_point' s')))
             = ''Model not loaded, unable to perform anomaly detection''
           \<longleftrightarrow> fst (get_model s') = None)
       \<and> ''Model not loaded, unable to perform anomaly detection''
           \<noteq> ''Normal data point with score '' @ formatted
       \<and> (first_missing data_point
             [''device_id'', ''timestamp'', ''temperature'', ''pressure'', ''rpm''] = None \<longrightarrow>
           fst (detect_anomaly L C now data_point s) =
             (error_response 400 ''No trained model available for anomaly detection'', []))"
proof -
  from assms have "fst (get_model s) = None"
    by (auto simp add: get_model_def Let_def load_model_result)
  then obtain s1 where "get_model s = (None, s1)"
    by (cases "get_model s") simp
  then have "fst (predict_anomaly L data_point s) =
           (False, 0, ''Model not loaded, unable to perform anomaly detection'')
       \<and> (first_missing data_point
             [''device_id'', ''timestamp'', ''temperature'', ''pressure'', ''rpm''] = None \<longrightarrow>
           fst (detect_anomaly L C now data_point s) =
             (error_response 400 ''No trained model available for anomaly detection'', []))"
    by (simp add: predict_anomaly_def detect_anomaly_def)
  with predict_anomaly_message_no_model [of L' data_point' s'] show ?thesis
    by simp
qed

text \<open>
  C5, as the code has it, at a process with no model file; and at a process whose model
  scores the reading 0.0, where the verdict and the score are the same and the reason is
  another.
\<close>

theorem model_unavailable_witness:
  "fst (predict_anomaly cpython (reading_of ''D1'') fresh) =
     (False, 0, ''Model not loaded, unable to perform anomaly detection'')
   \<and> snd (snd (fst (predict_anomaly cpython (reading_of ''D1'') (serving (constant_model 0)))))
       \<noteq> ''Model not loaded, unable to perform anomaly detection''
   \<and> fst (detect_anomaly cpython db_ok 0 (reading_of ''D1'') fresh) =
     (Response 400 [(''status'', PyStr ''error''),
        (''message'', PyStr ''No trained model available for anomaly detection'')], [])"
proof -
  have loaded: "fst (get_model (serving (constant_model 0))) \<noteq> None"
    by (simp add: get_model_def serving_def fresh_def load_model_def)
  have complete: "first_missing (reading_of ''D1'')
      [''device_id'', ''timestamp'', ''temperature'', ''pressure'', ''rpm''] = None"
    by (simp add: reading_of_def has_key_def)
  from model_unavailable [where s = fresh and e = "''unused''" and L = cpython
      and data_point = "reading_of ''D1''" and L' = cpython
      and data_point' = "reading_of ''D1''" and s' = "serving (constant_model 0)"
      and formatted = "[]" and C = db_ok and now = 0]
  show ?thesis
    using loaded complete by (simp add: fresh_def error_response_def)
qed

text \<open>
  C6 as stated fails: a process with a model loaded, whose model file can no longer be
  unpickled, has no model after \<^verbatim>\<open>load_model\<close>.
\<close>

theorem load_failure_counterexample:
  "isolation_forest_model
     (load_model (fresh\<lparr>isolation_forest_model := Some (constant_model 0),
                        model_pkl := LoadRaises ''invalid load key''\<rparr>)) = None
   \<and> isolation_forest_model
       (fresh\<lparr>isolation_forest_model := Some (constant_model 0),
              model_pkl := LoadRaises ''invalid load key''\<rparr>) \<noteq> None"
  by (simp add: load_model_def fresh_def)

text \<open>
  C6, as the code has it. When the model file is missing or \<^verbatim>\<open>joblib.load\<close> raises,
  \<^verbatim>\<open>load_model\<close> returns normally, logs a warning or an error, leaves the files as they
  are and sets the active model to None, whatever it was; scoring then answers "Model not
  loaded" while the file stays that way.
\<close>

theorem load_model_failure:
  assumes "model_pkl s = NoModelFile \<or> model_pkl s = LoadRaises e"
  shows "isolation_forest_model (load_model s) = None
       \<and> (logging (load_model s) =
            logging s @ [(WARNING, ''Model file not found. You need to train the model first.'')]
          \<or> logging (load_model s) =
            logging s @ [(INFO, ''Loading model from '' @ MODEL_PATH s),
                         (ERROR, ''Error loading model: '' @ e)])
       \<and> model_pkl (load_model s) = model_pkl s
       \<and> alerts_log (load_model s) = alerts_log s
       \<and> fst (predict_anomaly L data_point (load_model s)) =
           (False, 0, ''Model not loaded, unable to perform anomaly detection'')"
proof -
  from assms have none: "isolation_forest_model (load_model s) = None"
    by (auto simp add: load_model_result)
  from assms have logs: "logging (load_model s) =
            logging s @ [(WARNING, ''Model file not found. You need to train the model first.'')]
          \<or> logging (load_model s) =
            logging s @ [(INFO, ''Loading model from '' @ MODEL_PATH s),
                         (ERROR, ''Error loading model: '' @ e)]"
    by (auto simp add: load_model_def)
  from assms none have "fst (get_model (load_model s)) = None"
    by (auto simp add: get_model_def Let_def load_model_result)
  then obtain s1 where "get_model (load_model s) = (None, s1)"
    by (cases "get_model (load_model s)") simp
  then have "fst (predict_anomaly L data_point (load_model s)) =
           (False, 0, ''Model not loaded, unable to perform anomaly detection'')"
    by (simp add: predict_anomaly_def)
  with none logs show ?thesis by simp
qed

text \<open>C6, as the code has it, at a process whose model file cannot be unpickled.\<close>

theorem load_model_failure_witness:
  "isolation_forest_model
     (load_model (fresh\<lparr>isolation_forest_model := Some (constant_model 0),
                        model_pkl := LoadRaises ''invalid load key''\<rparr>)) = None
   \<and> fst (predict_anomaly cpython (reading_of ''D1'')
       (load_model (fresh\<lparr>isolation_forest_model := Some (constant_model 0),
                          model_pkl := LoadRaises ''invalid load key''\<rparr>))) =
     (False, 0, ''Model not loaded, unable to perform anomaly detection'')"
  using load_model_failure [of "fresh\<lparr>isolation_forest_model := Some (constant_model 0),
      model_pkl := LoadRaises ''invalid load key''\<rparr>" "''invalid load key''" cpython
      "reading_of ''D1''"]
  by (simp add: fresh_def)

section \<open>The malware check\<close>

lemma count_anomalies_filter:
  "count_anomalies L window_start device_id ls n =
     n + length (filter (\<lambda>line. case log_time L line of None \<Rightarrow> False
           | Some t \<Rightarrow> window_start \<le> t \<and> str_contains (''Device '' @ device_id) line)
         ls)"
  by (induction ls arbitrary: n) (auto split: option.splits)


lemma check_for_malware_alerts_log [simp]:
  "alerts_log (snd (check_for_malware L now device_id s)) = alerts_log s"
  by (simp add: check_for_malware_def Let_def split: text_file.splits)


subsection \<open>Runs of the example process\<close>

lemma str_int_examples:
  "str_int 70 = ''70''" "str_int 100 = ''100''" "str_int 3000 = ''3000''"
  by code_simp+

lemma format_scaled_half: "format_scaled True 5000 = ''-0.5000''"
  by code_simp

lemma format_4f_half: "format_4f_real (- (1 / 2)) = ''-0.5000''"
  by (simp add: format_4f_real_def round_half_even_def format_scaled_half)

lemma strftime_examples:
  "strftime_padded (datetime_of 2024 1 1 12 0 0 0) = ''2024-01-01 12:00:00''"
  "strftime_padded (datetime_of 2024 1 1 12 1 40 0) = ''2024-01-01 12:01:40''"
  "strftime_padded (datetime_of 2024 1 1 12 3 20 0) = ''2024-01-01 12:03:20''"
  by code_simp+

lemma message_of_reading:
  "anomaly_log_message cpython now (reading_of device) (- (1 / 2)) =
     ''['' @ strftime_padded now @ ''] ANOMALY DETECTED: Device '' @ device @
     '', Score: -0.5000, Data: temperature=70, pressure=100, rpm=3000''"
  by (simp add: anomaly_log_message_def cpython_def reading_of_def py_str_def
      str_int_examples format_4f_half)

lemma logged_alerts_log:
  "alerts_log (logged now device s) =
     (case alerts_log s of
        Absent \<Rightarrow> Content (anomaly_log_message cpython now (reading_of device) (- (1 / 2)) @ [CHR 0x0A])
      | Content c \<Rightarrow> Content (c @ anomaly_log_message cpython now (reading_of device) (- (1 / 2)) @ [CHR 0x0A])
      | OpenRaises e \<Rightarrow> OpenRaises e)"
  by (simp add: logged_def log_anomaly_def Let_def split: text_file.splits)

lemma logged_once:
  "logged (datetime_of 2024 1 1 12 0 0 0) device fresh =
     fresh\<lparr>alerts_log := Content
       (''[2024-01-01 12:00:00] ANOMALY DETECTED: Device '' @ device @
        '', Score: -0.5000, Data: temperature=70, pressure=100, rpm=3000'' @ [CHR 0x0A])\<rparr>"
  by (simp add: logged_def log_anomaly_def fresh_def message_of_reading strftime_examples)

lemma logged_twice:
  "logged (datetime_of 2024 1 1 12 1 40 0) device
     (logged (datetime_of 2024 1 1 12 0 0 0) device fresh) =
     fresh\<lparr>alerts_log := Content
       (''[2024-01-01 12:00:00] ANOMALY DETECTED: Device '' @ device @
        '', Score: -0.5000, Data: temperature=70, pressure=100, rpm=3000'' @ [CHR 0x0A] @
        ''[2024-01-01 12:01:40] ANOMALY DETECTED: Device '' @ device @
        '', Score: -0.5000, Data: temperature=70, pressure=100, rpm=3000'' @ [CHR 0x0A])\<rparr>"
  by (simp add: logged_once) (simp add: logged_def log_anomaly_def fresh_def message_of_reading strftime_examples)

lemma logged_thrice:
  "logged (datetime_of 2024 1 1 12 3 20 0) device
    (logged (datetime_of 2024 1 1 12 1 40 0) device
      (logged (datetime_of 2024 1 1 12 0 0 0) device fresh)) =
     fresh\<lparr>alerts_log := Content
       (''[2024-01-01 12:00:00] ANOMALY DETECTED: Device '' @ device @
        '', Score: -0.5000, Data: temperature=70, pressure=100, rpm=3000'' @ [CHR 0x0A] @
        ''[2024-01-01 12:01:40] ANOMALY DETECTED: Device '' @ device @
        '', Score: -0.5000, Data: temperature=70, pressure=100, rpm=3000'' @ [CHR 0x0A] @
        ''[2024-01-01 12:03:20] ANOMALY DETECTED: Device '' @ device @
        '', Score: -0.5000, Data: temperature=70, pressure=100, rpm=3000'' @ [CHR 0x0A])\<rparr>"
  by (simp add: logged_twice) (simp add: logged_def log_anomaly_def fresh_def message_of_reading strftime_examples)

lemma check_D1_after_D10:
  "fst (check_for_malware cpython (datetime_of 2024 1 1 12 1 0 0) ''D1''
     (logged (datetime_of 2024 1 1 12 0 0 0) ''D10'' fresh)) = (False, 1)"
  unfolding logged_once by code_simp

lemma check_D1_after_three_D10:
  "fst (check_for_malware cpython (datetime_of 2024 1 1 12 3 20 0) ''D1''
     (logged (datetime_of 2024 1 1 12 3 20 0) ''D10''
       (logged (datetime_of 2024 1 1 12 1 40 0) ''D10''
         (logged (datetime_of 2024 1 1 12 0 0 0) ''D10'' fresh)))) = (True, 3)"
  unfolding logged_thrice by code_simp

lemma check_D1_after_three_D1:
  "fst (check_for_malware cpython (datetime_of 2024 1 1 12 3 20 0) ''D1''
     (logged (datetime_of 2024 1 1 12 3 20 0) ''D1''
       (logged (datetime_of 2024 1 1 12 1 40 0) ''D1''
         (logged (datetime_of 2024 1 1 12 0 0 0) ''D1'' fresh)))) = (True, 3)"
  unfolding logged_thrice by code_simp

lemma check_at_once:
  "fst (check_for_malware cpython (datetime_of 2024 1 1 12 1 40 0) ''D1''
       (logged (datetime_of 2024 1 1 12 1 40 0) ''D1''
         (logged (datetime_of 2024 1 1 12 0 0 0) ''D1'' fresh))) = (False, 2)"
  unfolding logged_twice by code_simp

lemma check_late:
  "fst (check_for_malware cpython (datetime_of 2024 1 1 12 5 50 0) ''D1''
       (logged (datetime_of 2024 1 1 12 1 40 0) ''D1''
         (logged (datetime_of 2024 1 1 12 0 0 0) ''D1'' fresh))) = (False, 1)"
  unfolding logged_twice by code_simp


subsection \<open>The window\<close>

text \<open>
  C1, as the code has it. \<^verbatim>\<open>check_for_malware\<close> takes no anomaly timestamp and removes
  nothing: it leaves the process as it is and counts the lines of the alerts log that
  contain the text "Device " followed by the identifier and whose logged time is not
  earlier than the wall clock at the time of the check minus
  \<^verbatim>\<open>MALWARE_WINDOW_SECONDS\<close>; lines whose time does not parse are skipped.
\<close>

theorem check_for_malware_wall_clock:
  assumes "alerts_log s = Content c"
  shows "snd (fst (check_for_malware L now device_id s)) =
           length (filter
             (\<lambda>line. case log_time L line of None \<Rightarrow> False
                | Some t \<Rightarrow> now - timedelta MALWARE_WINDOW_SECONDS \<le> t
                    \<and> str_contains (''Device '' @ device_id) line)
             (readlines c))
       \<and> snd (check_for_malware L now device_id s) = s"
  using assms by (simp add: check_for_malware_def Let_def count_anomalies_filter)

text \<open>
  C1, as the code has it, on a log of two anomalies of one device, recorded at 12:00:00
  and 12:01:40 and checked at 12:05:50: the one from 12:01:40 is counted.
\<close>

theorem check_for_malware_wall_clock_witness:
  "snd (fst (check_for_malware cpython (datetime_of 2024 1 1 12 5 50 0) ''D1''
       (logged (datetime_of 2024 1 1 12 1 40 0) ''D1''
         (logged (datetime_of 2024 1 1 12 0 0 0) ''D1'' fresh)))) = 1
   \<and> snd (check_for_malware cpython (datetime_of 2024 1 1 12 5 50 0) ''D1''
       (logged (datetime_of 2024 1 1 12 1 40 0) ''D1''
         (logged (datetime_of 2024 1 1 12 0 0 0) ''D1'' fresh)))
     = logged (datetime_of 2024 1 1 12 1 40 0) ''D1''
         (logged (datetime_of 2024 1 1 12 0 0 0) ''D1'' fresh)"
proof -
  have "\<exists>c. alerts_log (logged (datetime_of 2024 1 1 12 1 40 0) ''D1''
         (logged (datetime_of 2024 1 1 12 0 0 0) ''D1'' fresh)) = Content c"
    by (simp add: logged_twice)
  then obtain c where "alerts_log (logged (datetime_of 2024 1 1 12 1 40 0) ''D1''
         (logged (datetime_of 2024 1 1 12 0 0 0) ''D1'' fresh)) = Content c" ..
  from check_for_malware_wall_clock [OF this, of cpython "datetime_of 2024 1 1 12 5 50 0" "''D1''"]
  show ?thesis
    using check_late by simp
qed

text \<open>
  C1 as stated fails. An anomaly of D1 is recorded at 12:00:00 and another at 12:01:40.
  With the boundary at the recorded anomaly's time minus 300 seconds both are in the
  window, and that is what the check counts at 12:01:40; the same log checked at 12:05:50
  counts one, because the boundary moves with the wall clock.
\<close>

theorem window_boundary_counterexample:
  "spec_record_and_count [datetime_of 2024 1 1 12 0 0 0] (datetime_of 2024 1 1 12 1 40 0) = 2
   \<and> snd (fst (check_for_malware cpython (datetime_of 2024 1 1 12 1 40 0) ''D1''
       (logged (datetime_of 2024 1 1 12 1 40 0) ''D1''
         (logged (datetime_of 2024 1 1 12 0 0 0) ''D1'' fresh)))) = 2
   \<and> snd (fst (check_for_malware cpython (datetime_of 2024 1 1 12 5 50 0) ''D1''
       (logged (datetime_of 2024 1 1 12 1 40 0) ''D1''
         (logged (datetime_of 2024 1 1 12 0 0 0) ''D1'' fresh)))) = 1"
proof -
  have "spec_record_and_count [datetime_of 2024 1 1 12 0 0 0]
          (datetime_of 2024 1 1 12 1 40 0) = 2"
    by code_simp
  then show ?thesis
    by (simp add: check_at_once check_late)
qed

subsection \<open>The verdict\<close>

lemma check_for_malware_verdict:
  "fst (fst (check_for_malware L now device_id s)) =
     (MALWARE_THRESHOLD_COUNT \<le> snd (fst (check_for_malware L now device_id s)))"
  by (cases "alerts_log s")
     (simp_all add: check_for_malware_def Let_def MALWARE_THRESHOLD_COUNT_def)

lemma score_and_correlate_verdict:
  "is_potential_malware (fst (score_and_correlate L now data s)) =
     (MALWARE_THRESHOLD_COUNT \<le> anomaly_count (fst (score_and_correlate L now data s)))"
proof -
  obtain a b c d where p: "predict_anomaly L data s = ((a, b, c), d)"
    by (cases "predict_anomaly L data s") auto
  obtain e f g where q:
    "check_for_malware L now (py_str L (dict_get data ''device_id'')) d = ((e, f), g)"
    by (cases "check_for_malware L now (py_str L (dict_get data ''device_id'')) d") auto
  from check_for_malware_verdict [of L now "py_str L (dict_get data ''device_id'')" d] q
  have "e = (MALWARE_THRESHOLD_COUNT \<le> f)" by simp
  with p q show ?thesis
    by (simp add: score_and_correlate_def MALWARE_THRESHOLD_COUNT_def)
qed

text \<open>
  C9. Whatever the log, the clock and the device, the verdict \<^verbatim>\<open>check_for_malware\<close>
  returns is \<open>count \<ge> MALWARE_THRESHOLD_COUNT\<close> for the count it returns, and so is
  the verdict of a detection; the threshold is 3 and the window 300 seconds.
\<close>

theorem malware_verdict_inclusive:
  "fst (fst (check_for_malware L now device_id s)) =
     (MALWARE_THRESHOLD_COUNT \<le> snd (fst (check_for_malware L now device_id s)))
   \<and> is_potential_malware (fst (score_and_correlate L now data s)) =
     (MALWARE_THRESHOLD_COUNT \<le> anomaly_count (fst (score_and_correlate L now data s)))
   \<and> MALWARE_THRESHOLD_COUNT = 3 \<and> MALWARE_WINDOW_SECONDS = 300"
proof -
  have "MALWARE_THRESHOLD_COUNT = 3 \<and> MALWARE_WINDOW_SECONDS = 300"
    by (simp add: MALWARE_THRESHOLD_COUNT_def MALWARE_WINDOW_SECONDS_def)
  with check_for_malware_verdict [of L now device_id s]
    score_and_correlate_verdict [of L now data s]
  show ?thesis by blast
qed

text \<open>
  C9 on a log of three anomalies of D1 within 200 seconds: the count is 3 and the verdict
  true; on the first two the count is 2 and the verdict false.
\<close>

theorem malware_verdict_inclusive_witness:
  "fst (check_for_malware cpython (datetime_of 2024 1 1 12 3 20 0) ''D1''
     (logged (datetime_of 2024 1 1 12 3 20 0) ''D1''
       (logged (datetime_of 2024 1 1 12 1 40 0) ''D1''
         (logged (datetime_of 2024 1 1 12 0 0 0) ''D1'' fresh)))) = (True, 3)
   \<and> fst (check_for_malware cpython (datetime_of 2024 1 1 12 1 40 0) ''D1''
       (logged (datetime_of 2024 1 1 12 1 40 0) ''D1''
         (logged (datetime_of 2024 1 1 12 0 0 0) ''D1'' fresh))) = (False, 2)"
  using malware_verdict_inclusive [of cpython "datetime_of 2024 1 1 12 3 20 0" "''D1''"
      "logged (datetime_of 2024 1 1 12 3 20 0) ''D1''
        (logged (datetime_of 2024 1 1 12 1 40 0) ''D1''
          (logged (datetime_of 2024 1 1 12 0 0 0) ''D1'' fresh))"]
    check_D1_after_three_D1 check_at_once
  by simp

subsection \<open>Devices whose identifiers share a prefix\<close>

text \<open>
  C3 fails on the code. \<^verbatim>\<open>check_for_malware\<close> tests whether the text "Device " followed
  by the identifier occurs in the line, and "Device D1" occurs in a line written for
  D10. Before anything is logged the count of D1 is 0; after one anomaly of D10 is logged
  it is 1; after three anomalies of D10 the device D1, which has none, is reported as
  probable malware with count 3.
\<close>

theorem device_prefix_counted:
  "fst (check_for_malware cpython (datetime_of 2024 1 1 12 1 0 0) ''D1'' fresh) = (False, 0)
   \<and> fst (check_for_malware cpython (datetime_of 2024 1 1 12 1 0 0) ''D1''
       (logged (datetime_of 2024 1 1 12 0 0 0) ''D10'' fresh)) = (False, 1)
   \<and> fst (check_for_malware cpython (datetime_of 2024 1 1 12 3 20 0) ''D1''
       (logged (datetime_of 2024 1 1 12 3 20 0) ''D10''
         (logged (datetime_of 2024 1 1 12 1 40 0) ''D10''
           (logged (datetime_of 2024 1 1 12 0 0 0) ''D10'' fresh)))) = (True, 3)"
proof -
  have "fst (check_for_malware cpython (datetime_of 2024 1 1 12 1 0 0) ''D1'' fresh) = (False, 0)"
    by (simp add: check_for_malware_def fresh_def)
  then show ?thesis
    by (simp add: check_D1_after_D10 check_D1_after_three_D10)
qed

section \<open>The endpoint and the alerts log\<close>

lemma predict_anomaly_ignores_alerts_log:
  "predict_anomaly L data_point (s\<lparr>alerts_log := other_log\<rparr>) =
     (fst (predict_anomaly L data_point s),
      (snd (predict_anomaly L data_point s))\<lparr>alerts_log := other_log\<rparr>)"
  by (cases "model_pkl s")
     (simp_all add: predict_anomaly_def prediction_failed_def get_model_def load_model_def
       log_def Let_def split: option.splits sum.splits)

lemma predict_anomaly_after_get_model:
  assumes "get_model s = (Some m, s1)"
  shows "predict_anomaly L data_point s1 = predict_anomaly L data_point s"
proof -
  from assms have "isolation_forest_model s1 = Some m"
    using get_model_files(3) [of s] by simp
  then have "get_model s1 = (Some m, s1)"
    by (simp add: get_model_def)
  with assms show ?thesis
    by (simp add: predict_anomaly_def)
qed

lemma score_and_correlate_alerts_log [simp]:
  "alerts_log (snd (score_and_correlate L now data s)) = alerts_log s"
proof -
  obtain a b c d where p: "predict_anomaly L data s = ((a, b, c), d)"
    by (cases "predict_anomaly L data s") auto
  then have d: "alerts_log d = alerts_log s"
    using predict_anomaly_alerts_log [of L data s] by simp
  obtain e f g where q:
    "check_for_malware L now (py_str L (dict_get data ''device_id'')) d = ((e, f), g)"
    by (cases "check_for_malware L now (py_str L (dict_get data ''device_id'')) d") auto
  then have "alerts_log g = alerts_log d"
    using check_for_malware_alerts_log [of L now "py_str L (dict_get data ''device_id'')" d]
    by simp
  with p q d show ?thesis
    by (simp add: score_and_correlate_def)
qed

text \<open>No request to \<^verbatim>\<open>/detect\<close> writes the alerts log: nothing on its path calls \<^verbatim>\<open>log_anomaly\<close>.\<close>

lemma detect_anomaly_alerts_log [simp]:
  "alerts_log (snd (detect_anomaly L C now data s)) = alerts_log s"
proof -
  obtain mo s1 where g: "get_model s = (mo, s1)"
    by (cases "get_model s")
  then have s1: "alerts_log s1 = alerts_log s"
    using get_model_files(2) [of s] by simp
  obtain d s2 where sc: "score_and_correlate L now data s1 = (d, s2)"
    by (cases "score_and_correlate L now data s1")
  then have "alerts_log s2 = alerts_log s1"
    using score_and_correlate_alerts_log [of L now data s1] by simp
  with g s1 sc show ?thesis
    by (simp add: detect_anomaly_def detection_failed_def split: option.splits)
qed

text \<open>
  C7. When the scorer's verdict on a reading is "not an anomaly", the detection has
  count 0 and malware flag false; the alerts log, which is all the state the malware check
  works on, is left as it is and is not read (the detection is the same whatever the log
  holds and whatever the clock shows); and the request commits nothing but the sensor row:
  no anomaly row and no change of the device's status.
\<close>

theorem normal_reading_leaves_tracker:
  assumes "\<not> fst (fst (predict_anomaly L data s))"
  shows "anomaly_count (fst (score_and_correlate L now data s)) = 0
       \<and> \<not> is_potential_malware (fst (score_and_correlate L now data s))
       \<and> alerts_log (snd (score_and_correlate L now data s)) = alerts_log s
       \<and> fst (score_and_correlate L now' data (s\<lparr>alerts_log := other_log\<rparr>))
           = fst (score_and_correlate L now data s)
       \<and> alerts_log (snd (detect_anomaly L C now data s)) = alerts_log s
       \<and> set (snd (fst (detect_anomaly L C now data s))) \<subseteq> {SensorDataAdded}"
proof -
  obtain a b c d where p: "predict_anomaly L data s = ((a, b, c), d)"
    by (cases "predict_anomaly L data s") auto
  with assms have a: "\<not> a" by simp
  from p a have sc: "score_and_correlate L now data s =
      (\<lparr>is_anomaly = False, anomaly_score = b, message = c,
        is_potential_malware = False, anomaly_count = 0\<rparr>, d)"
    by (simp add: score_and_correlate_def)
  from p a have sc': "fst (score_and_correlate L now' data (s\<lparr>alerts_log := other_log\<rparr>)) =
      \<lparr>is_anomaly = False, anomaly_score = b, message = c,
        is_potential_malware = False, anomaly_count = 0\<rparr>"
    by (simp add: score_and_correlate_def predict_anomaly_ignores_alerts_log)
  have changes: "set (snd (fst (detect_anomaly L C now data s))) \<subseteq> {SensorDataAdded}"
  proof (cases "get_model s")
    case (Pair mo s1)
    show ?thesis
    proof (cases mo)
      case None
      with Pair show ?thesis
        by (simp add: detect_anomaly_def split: option.splits)
    next
      case (Some m)
      with Pair have "predict_anomaly L data s1 = ((a, b, c), d)"
        using predict_anomaly_after_get_model [of s m s1 L data] p by simp
      with a have "score_and_correlate L now data s1 =
        (\<lparr>is_anomaly = False, anomaly_score = b, message = c,
          is_potential_malware = False, anomaly_count = 0\<rparr>, d)"
        by (simp add: score_and_correlate_def)
      with Pair Some show ?thesis
        by (simp add: detect_anomaly_def detection_failed_def session_changes_def
            split: option.splits)
    qed
  qed
  from p have "alerts_log d = alerts_log s"
    using predict_anomaly_alerts_log [of L data s] by simp
  with sc sc' changes show ?thesis by simp
qed

text \<open>
  C7 at a reading that the model scores 0.0, sent to a process whose alerts log holds
  three anomalies of the same device: the answer is 200 with no malware fields, and only
  the sensor row is committed.
\<close>

theorem normal_reading_leaves_tracker_witness:
  "anomaly_count (fst (score_and_correlate cpython (datetime_of 2024 1 1 12 3 20 0)
      (reading_of ''D1'')
      ((logged (datetime_of 2024 1 1 12 3 20 0) ''D1''
         (logged (datetime_of 2024 1 1 12 1 40 0) ''D1''
           (logged (datetime_of 2024 1 1 12 0 0 0) ''D1'' fresh)))
        \<lparr>model_pkl := Pickled (constant_model 0)\<rparr>))) = 0
   \<and> set (snd (fst (detect_anomaly cpython db_ok (datetime_of 2024 1 1 12 3 20 0)
      (reading_of ''D1'')
      ((logged (datetime_of 2024 1 1 12 3 20 0) ''D1''
         (logged (datetime_of 2024 1 1 12 1 40 0) ''D1''
           (logged (datetime_of 2024 1 1 12 0 0 0) ''D1'' fresh)))
        \<lparr>model_pkl := Pickled (constant_model 0)\<rparr>)))) \<subseteq> {SensorDataAdded}"
proof -
  have "\<not> fst (fst (predict_anomaly cpython (reading_of ''D1'')
      ((logged (datetime_of 2024 1 1 12 3 20 0) ''D1''
         (logged (datetime_of 2024 1 1 12 1 40 0) ''D1''
           (logged (datetime_of 2024 1 1 12 0 0 0) ''D1'' fresh)))
        \<lparr>model_pkl := Pickled (constant_model 0)\<rparr>)))"
    unfolding logged_thrice
    by (simp add: predict_anomaly_def get_model_def load_model_def fresh_def
        reading_of_def MODEL_FEATURES_def constant_model_def ANOMALY_THRESHOLD_def)
  from normal_reading_leaves_tracker [OF this] show ?thesis
    by blast
qed




end
